theory Spec2Isabelle
  imports Complex_Main
begin

section \<open>JavaScript values\<close>

text \<open>
  The library (\<^verbatim>\<open>src/src/patience.js\<close>) handles caller-supplied values without
  checking their types, and several of its branches turn on JavaScript truthiness.
  The values are therefore modelled as JavaScript has them:
  \<^item> \<open>prim\<close>: the primitive values. Numbers are exact reals together with \<open>NaN\<close> and
    the two infinities (an attempt count is a small integer, where IEEE doubles are
    exact); a string is a list of characters.
  \<^item> \<open>obj\<close>: a plain object, as the list of its own properties in the order of
    \<^verbatim>\<open>Object.keys\<close>. A policy object is flat: its property values are primitives.
  \<^item> \<open>jsval\<close>: what a setter can be handed, a primitive or a plain object.
  The members a value inherits from its prototype (\<^verbatim>\<open>toString\<close>, \<^verbatim>\<open>constructor\<close>,
  ...) are modelled where the caller chooses the name that is read, in the strategy
  registry. Everywhere else the names read are \<^verbatim>\<open>url\<close> and the keys of the library's
  own policies, which no prototype defines, and a read finds own properties only.
  The identity of objects is outside the model.
\<close>

datatype prim = Undefined | Null | JBool bool | JNum real | JNaN | JInf bool | JStr string

type_synonym obj = "(string \<times> prim) list"

datatype jsval = Prim prim | Obj obj

text \<open>
  How a call can end badly: with the \<^verbatim>\<open>TypeError\<close> the language throws on reading
  a property of \<^verbatim>\<open>undefined\<close> or \<^verbatim>\<open>null\<close>, or, for the model, by leaving what is
  modelled (\<open>OutsideModel\<close>: nothing is said about what the source does then).
\<close>

datatype js_error = TypeError | OutsideModel

fun truthy_prim :: "prim \<Rightarrow> bool" where
  "truthy_prim Undefined = False"
| "truthy_prim Null = False"
| "truthy_prim (JBool b) = b"
| "truthy_prim (JNum r) = (r \<noteq> 0)"
| "truthy_prim JNaN = False"
| "truthy_prim (JInf s) = True"
| "truthy_prim (JStr s) = (s \<noteq> [])"

fun truthy :: "jsval \<Rightarrow> bool" where
  "truthy (Prim p) = truthy_prim p"
| "truthy (Obj ps) = True"

text \<open>\<^verbatim>\<open>a === b\<close> on primitives: \<open>NaN\<close> equals nothing, itself included.\<close>

definition strict_eq :: "prim \<Rightarrow> prim \<Rightarrow> bool" where
  "strict_eq a b = (a = b \<and> a \<noteq> JNaN)"

text \<open>\<^verbatim>\<open>o[k]\<close> on a plain object: the own property, or \<^verbatim>\<open>undefined\<close>.\<close>

fun lookup :: "(string \<times> prim) list \<Rightarrow> string \<Rightarrow> prim" where
  "lookup [] k = Undefined"
| "lookup ((k', v) # ps) k = (if k' = k then v else lookup ps k)"

text \<open>\<^verbatim>\<open>o[k] = v\<close>: an existing property keeps its place, a new one goes last.\<close>

fun assign :: "(string \<times> 'v) list \<Rightarrow> string \<Rightarrow> 'v \<Rightarrow> (string \<times> 'v) list" where
  "assign [] k v = [(k, v)]"
| "assign ((k', v') # ps) k v = (if k' = k then (k, v) # ps else (k', v') # assign ps k v)"

text \<open>The decimal name of an index, as \<^verbatim>\<open>Object.keys\<close> gives it for a string.\<close>

function dec :: "nat \<Rightarrow> string" where
  "dec n = (if n < 10 then [char_of (48 + n)] else dec (n div 10) @ [char_of (48 + n mod 10)])"
  by pat_completeness auto
termination
  by (relation "measure id") auto

text \<open>
  \<^verbatim>\<open>v[k]\<close> and \<^verbatim>\<open>Object.keys(v)\<close> for a value that is neither \<^verbatim>\<open>undefined\<close> nor
  \<^verbatim>\<open>null\<close> (on those two both throw; every caller below guards against them). A string
  has its indices and \<^verbatim>\<open>length\<close>; a number or a boolean has no own property
  (ECMAScript 2015 and later).
\<close>

fun read :: "jsval \<Rightarrow> string \<Rightarrow> prim" where
  "read (Obj ps) k = lookup ps k"
| "read (Prim (JStr s)) k =
     (if k = ''length'' then JNum (of_nat (length s))
      else case find (\<lambda>i. dec i = k) [0..<length s] of
             Some i \<Rightarrow> JStr [s ! i]
           | None \<Rightarrow> Undefined)"
| "read (Prim p) k = Undefined"

fun keys :: "jsval \<Rightarrow> string list" where
  "keys (Obj ps) = map fst ps"
| "keys (Prim (JStr s)) = map dec [0..<length s]"
| "keys (Prim p) = []"

definition nullish :: "jsval \<Rightarrow> bool" where
  "nullish v = (v = Prim Undefined \<or> v = Prim Null)"

section \<open>Blocked-group registry\<close>

text \<open>
  \<^verbatim>\<open>blockedGroups.list\<close> is an array of group names; \<^verbatim>\<open>indexOf\<close> compares with
  \<^verbatim>\<open>===\<close> and answers \<open>-1\<close> when nothing matches.
\<close>

fun indexOf_from :: "prim list \<Rightarrow> prim \<Rightarrow> int \<Rightarrow> int" where
  "indexOf_from [] x i = - 1"
| "indexOf_from (y # ys) x i = (if strict_eq y x then i else indexOf_from ys x (i + 1))"

definition indexOf :: "prim list \<Rightarrow> prim \<Rightarrow> int" where
  "indexOf xs x = indexOf_from xs x 0"

definition blockedGroups_contains :: "prim list \<Rightarrow> prim \<Rightarrow> bool" where
  "blockedGroups_contains list groupName = (indexOf list groupName > - 1)"

definition blockedGroups_add :: "prim list \<Rightarrow> prim \<Rightarrow> prim list" where
  "blockedGroups_add list groupName =
     (if \<not> blockedGroups_contains list groupName then list @ [groupName] else list)"

definition blockedGroups_remove :: "prim list \<Rightarrow> prim \<Rightarrow> prim list" where
  "blockedGroups_remove list groupName =
     (let groupIndex = indexOf list groupName
      in if groupIndex > - 1
         then take (nat groupIndex) list @ drop (nat groupIndex + 1) list
         else list)"

section \<open>Default options and the policy resolver\<close>

text \<open>
  \<^verbatim>\<open>options.defaults\<close>, as the module creates them. In the source \<^verbatim>\<open>options.parse\<close>
  can hand back the defaults object itself, and \<^verbatim>\<open>_configure\<close> then writes
  \<^verbatim>\<open>maxRetry\<close> into it. The model works on values: a policy is copied when it is
  stored. The only trace the sharing leaves in the source is a \<^verbatim>\<open>maxRetry\<close> entry in
  the defaults, which \<^verbatim>\<open>_configure\<close> overwrites in every policy before the retry
  primitive reads it.
\<close>

definition defaults_retry :: obj where
  "defaults_retry =
     [(''max'', JNum 2), (''interval'', JNum 100), (''intervalMultiplicator'', JNum 1)]"

definition defaults_reAttempt :: obj where
  "defaults_reAttempt =
     [(''max'', JNum 3), (''interval'', JNum 1000), (''intervalMultiplicator'', JNum 1)]"

text \<open>
  \<^verbatim>\<open>options.override\<close>: one property per key of the defaults,
  \<^verbatim>\<open>options[key] || defaultOptions[key]\<close>. Reading a property of \<^verbatim>\<open>undefined\<close> or
  \<^verbatim>\<open>null\<close> throws, which happens as soon as the defaults have a key.
\<close>

definition options_override :: "jsval \<Rightarrow> obj \<Rightarrow> js_error + obj" where
  "options_override options defaultOptions =
     (if nullish options \<and> defaultOptions \<noteq> [] then Inl TypeError
      else Inr (map (\<lambda>key. (key, if truthy_prim (read options key) then read options key
                                   else lookup defaultOptions key))
                    (map fst defaultOptions)))"

definition options_parse :: "jsval \<Rightarrow> obj \<Rightarrow> js_error + obj" where
  "options_parse options defaultOptions =
     (if \<not> truthy options \<or> length (keys options) = 0 then Inr defaultOptions
      else options_override options defaultOptions)"

section \<open>Strategy registry\<close>

text \<open>
  A strategy is an object whose properties are handed to the setters of the same
  names, so its values are \<open>jsval\<close>s. \<^verbatim>\<open>strategies.list\<close> maps names to strategies.
\<close>

type_synonym strategy = "(string \<times> jsval) list"

definition builtin_strategies :: "(string \<times> strategy) list" where
  "builtin_strategies =
     [(''resilient'',
        [(''retry'', Obj [(''max'', JNum 5), (''interval'', JNum 100),
                          (''intervalMultiplicator'', JNum 1)]),
         (''reAttempt'', Obj [(''max'', JNum 10), (''interval'', JNum 1000),
                              (''intervalMultiplicator'', JNum 1)])]),
      (''exponential-backoff'',
        [(''retry'', Obj [(''max'', JNum 2), (''interval'', JNum 100),
                          (''intervalMultiplicator'', JNum (3 / 2))]),
         (''reAttempt'', Obj [(''max'', JNum 3), (''interval'', JNum 1000),
                              (''intervalMultiplicator'', JNum (3 / 2))])])]"

text \<open>
  \<^verbatim>\<open>strategies.list\<close> is an object literal, and \<^verbatim>\<open>strategies.get\<close> reads
  \<^verbatim>\<open>this.list[strategyName]\<close>: under a name that has no entry the read still finds
  the member that every object inherits under that name, if there is one. The names
  are those of \<^verbatim>\<open>Object.prototype\<close>.
\<close>

definition object_prototype_names :: "string list" where
  "object_prototype_names =
     [''constructor'', ''hasOwnProperty'', ''isPrototypeOf'', ''propertyIsEnumerable'',
      ''toLocaleString'', ''toString'', ''valueOf'', ''__proto__'',
      ''__defineGetter__'', ''__defineSetter__'', ''__lookupGetter__'', ''__lookupSetter__'']"

text \<open>
  What \<^verbatim>\<open>strategies.get\<close> answers: \<^verbatim>\<open>false\<close> when the read gives \<^verbatim>\<open>undefined\<close>
  (\<open>Absent\<close>), and what the read gives otherwise, a stored strategy or an inherited
  member. Both of these are truthy, so the callers' tests \<^verbatim>\<open>if (this.get(name))\<close> and
  \<^verbatim>\<open>if (!strategy)\<close> ask whether the answer is \<open>Absent\<close>.
\<close>

datatype found = Absent | Stored strategy | Inherited string

definition strategies_get :: "(string \<times> strategy) list \<Rightarrow> string \<Rightarrow> found" where
  "strategies_get list strategyName =
     (case map_of list strategyName of
        Some strategy \<Rightarrow> Stored strategy
      | None \<Rightarrow> if strategyName \<in> set object_prototype_names
                then Inherited strategyName else Absent)"

text \<open>
  \<^verbatim>\<open>strategies.add\<close> returns \<^verbatim>\<open>false\<close> on a name that is taken; otherwise it stores
  the strategy and falls off the end of the function, returning \<^verbatim>\<open>undefined\<close>.
\<close>

definition strategies_add ::
  "(string \<times> strategy) list \<Rightarrow> string \<Rightarrow> strategy \<Rightarrow> prim \<times> (string \<times> strategy) list" where
  "strategies_add list strategyName strategyOptions =
     (if strategies_get list strategyName \<noteq> Absent then (JBool False, list)
      else (Undefined, assign list strategyName strategyOptions))"

section \<open>The orchestrator\<close>

subsection \<open>Configuration\<close>

text \<open>
  \<^verbatim>\<open>_options\<close> starts as \<^verbatim>\<open>{}\<close>: every entry \<^verbatim>\<open>undefined\<close>. \<^verbatim>\<open>retry\<close> and
  \<^verbatim>\<open>reAttempt\<close> are only ever written by their setters, which store an object, so
  they are an \<open>obj option\<close> with \<open>None\<close> for \<^verbatim>\<open>undefined\<close>. The group is compared
  with \<^verbatim>\<open>===\<close> by the registry, so it is a primitive (the identity of an object used
  as a group is outside the model).
\<close>

record options =
  o_request :: jsval
  o_retry :: "obj option"
  o_reAttempt :: "obj option"
  o_group :: prim

definition empty_options :: options where
  "empty_options =
     \<lparr>o_request = Prim Undefined, o_retry = None, o_reAttempt = None, o_group = Undefined\<rparr>"

text \<open>
  A method either completes and leaves a configuration (\<open>Done\<close>), or throws and
  leaves behind what it had written until then (\<open>Raise\<close>).
\<close>

datatype 'a step = Done 'a | Raise js_error 'a

definition messages_retryFailed :: string where
  "messages_retryFailed = ''Request failed.''"

definition messages_reAttemptsFailed :: string where
  "messages_reAttemptsFailed = ''Re-attempts of request failed.''"

definition messages_requestsBlocked :: string where
  "messages_requestsBlocked = ''Requests are currently blocked by Retry library.''"

definition retry :: "jsval \<Rightarrow> options \<Rightarrow> options step" where
  "retry params opts =
     (case options_parse params defaults_retry of
        Inl e \<Rightarrow> Raise e opts
      | Inr p \<Rightarrow> Done (opts\<lparr>o_retry := Some p\<rparr>))"

definition request :: "jsval \<Rightarrow> options \<Rightarrow> options" where
  "request params opts = opts\<lparr>o_request := params\<rparr>"

definition reAttempt :: "jsval \<Rightarrow> options \<Rightarrow> options step" where
  "reAttempt params opts =
     (case options_parse params defaults_reAttempt of
        Inl e \<Rightarrow> Raise e opts
      | Inr p \<Rightarrow> Done (opts\<lparr>o_reAttempt := Some p\<rparr>))"

definition group :: "prim \<Rightarrow> options \<Rightarrow> options" where
  "group name opts = opts\<lparr>o_group := name\<rparr>"

text \<open>
  \<^verbatim>\<open>max - 1\<close> converts its left operand to a number. The conversion of a string
  follows the numeric-literal grammar of the language, which is not part of this
  repository: it is the parameter \<open>str_num\<close>.
\<close>

fun to_number :: "(string \<Rightarrow> prim) \<Rightarrow> prim \<Rightarrow> prim" where
  "to_number str_num Undefined = JNaN"
| "to_number str_num Null = JNum 0"
| "to_number str_num (JBool b) = JNum (if b then 1 else 0)"
| "to_number str_num (JStr s) = str_num s"
| "to_number str_num n = n"

fun minus_one :: "prim \<Rightarrow> prim" where
  "minus_one (JNum r) = JNum (r - 1)"
| "minus_one n = n"

text \<open>
  \<^verbatim>\<open>_configure\<close>, in the order of the source: default the retry policy, default the
  group to \<^verbatim>\<open>request.url\<close> (reading \<^verbatim>\<open>url\<close> of a missing request throws), copy
  \<^verbatim>\<open>retry.max\<close> to \<^verbatim>\<open>retry.maxRetry\<close>, and set \<^verbatim>\<open>reAttempt.maxRetry\<close> to
  \<^verbatim>\<open>reAttempt.max - 1\<close> when a re-attempt policy is there.
\<close>

definition configure :: "(string \<Rightarrow> prim) \<Rightarrow> options \<Rightarrow> options step" where
  "configure str_num opts =
     (case (if o_retry opts = None then retry (Prim Undefined) opts else Done opts) of
        Raise e opts1 \<Rightarrow> Raise e opts1
      | Done opts1 \<Rightarrow>
          (if o_group opts1 = Undefined \<and> nullish (o_request opts1) then Raise TypeError opts1
           else
             (let opts2 = (if o_group opts1 = Undefined
                           then group (read (o_request opts1) ''url'') opts1 else opts1)
              in (case o_retry opts2 of
                    None \<Rightarrow> Raise TypeError opts2
                  | Some r \<Rightarrow>
                      (let opts3 = opts2\<lparr>o_retry :=
                                           Some (assign r ''maxRetry'' (lookup r ''max''))\<rparr>
                       in (case o_reAttempt opts3 of
                             None \<Rightarrow> Done opts3
                           | Some a \<Rightarrow>
                               Done (opts3\<lparr>o_reAttempt :=
                                 Some (assign a ''maxRetry''
                                   (minus_one (to_number str_num (lookup a ''max''))))\<rparr>)))))))"

subsection \<open>The bounded-retry primitive\<close>

text \<open>
  Modelled from the spec: \<^verbatim>\<open>Qretry\<close>, the \<^verbatim>\<open>qretry\<close> package that \<^verbatim>\<open>patience.js\<close>
  requires, is not among the sources. The spec gives its contract: given an action
  and a policy \<^verbatim>\<open>{maxRetry: int, interval, intervalMultiplicator}\<close>, it retries the
  action up to \<^verbatim>\<open>maxRetry\<close> additional times beyond the first try, resolving on
  the first success or rejecting after exhaustion with the last error. The delays
  between tries are time and are not modelled. The spec says nothing for a
  \<^verbatim>\<open>maxRetry\<close> that is not an integer: \<open>None\<close>.

  The action is a function of the number of executor calls made so far in the run;
  the result is the outcome together with that number afterwards. \<open>attempts\<close> is
  the loop: one try, and on a failure another while retries remain.
\<close>

fun attempts :: "(nat \<Rightarrow> 'e + 'r) \<Rightarrow> nat \<Rightarrow> nat \<Rightarrow> ('e + 'r) \<times> nat" where
  "attempts action i 0 = (action i, Suc i)"
| "attempts action i (Suc n) =
     (case action i of
        Inr res \<Rightarrow> (Inr res, Suc i)
      | Inl err \<Rightarrow> attempts action (Suc i) n)"

text \<open>
  Modelled from the spec: the entry point of the absent \<^verbatim>\<open>qretry\<close> package, which
  reads the number of retries from the \<^verbatim>\<open>maxRetry\<close> entry of the policy it is given.
\<close>

definition Qretry :: "(nat \<Rightarrow> 'e + 'r) \<Rightarrow> nat \<Rightarrow> obj \<Rightarrow> (('e + 'r) \<times> nat) option" where
  "Qretry action i policy =
     (case lookup policy ''maxRetry'' of
        JNum r \<Rightarrow> if of_int \<lfloor>r\<rfloor> = r then Some (attempts action i (nat \<lfloor>r\<rfloor>)) else None
      | _ \<Rightarrow> None)"

subsection \<open>Running a request\<close>

text \<open>
  The executor (\<^verbatim>\<open>axios\<close>) is the world: \<open>ex req i\<close> is what the call number \<open>i\<close> of
  a run (counted from 0) with descriptor \<open>req\<close> settles to, \<open>Inl\<close> a failure and
  \<open>Inr\<close> a response. What a run does besides settling its promise is recorded in
  order: the executor calls, the publications on \<^verbatim>\<open>PubSub\<close>, the progress
  notifications, the additions to and removals from the registry, and the console.
  A run is taken on its own: nothing else touches the registry while it is under way.
\<close>

type_synonym ('e, 'r) executor = "jsval \<Rightarrow> nat \<Rightarrow> 'e + 'r"

datatype 'e field = Text string | Cause 'e

type_synonym 'e payload = "(string \<times> 'e field) list"

datatype 'e event =
    Request jsval
  | Publish string string
  | Notify "'e payload"
  | Block prim
  | Unblock prim
  | ConsoleError string

text \<open>
  How the promise of \<^verbatim>\<open>run\<close> settles; \<open>Unspecified\<close> where the contract of the
  retry primitive says nothing.
\<close>

datatype ('e, 'r) promise = Resolved 'r | Rejected "'e payload" | Unspecified

text \<open>What a call gives back at once: an exception, \<^verbatim>\<open>false\<close>, or a promise.\<close>

datatype ('e, 'r) ret = Throws js_error | ReturnsFalse | Returns "('e, 'r) promise"

record ('e, 'r) outcome =
  returned :: "('e, 'r) ret"
  config :: options
  registry :: "prim list"
  effects :: "'e event list"

definition doRequest :: "('e, 'r) executor \<Rightarrow> options \<Rightarrow> nat \<Rightarrow> 'e + 'r" where
  "doRequest ex opts = ex (o_request opts)"

definition doReAttempt ::
  "('e, 'r) executor \<Rightarrow> options \<Rightarrow> prim list \<Rightarrow> nat
     \<Rightarrow> ('e, 'r) promise \<times> prim list \<times> 'e event list" where
  "doReAttempt ex opts list i =
     (case o_reAttempt opts of
        None \<Rightarrow> (Unspecified, list, [])
      | Some policy \<Rightarrow>
          (case Qretry (ex (o_request opts)) i policy of
             None \<Rightarrow> (Unspecified, list, [])
           | Some (Inr res, j) \<Rightarrow>
               (Resolved res,
                blockedGroups_remove list (o_group opts),
                replicate (j - i) (Request (o_request opts)) @ [Unblock (o_group opts)])
           | Some (Inl err, j) \<Rightarrow>
               (Rejected [(''message'', Text messages_reAttemptsFailed), (''err'', Cause err)],
                blockedGroups_remove list (o_group opts),
                replicate (j - i) (Request (o_request opts))
                  @ [Unblock (o_group opts), Publish ''reAttemptsFailed'' messages_reAttemptsFailed])))"

definition doRetry ::
  "('e, 'r) executor \<Rightarrow> options \<Rightarrow> prim list
     \<Rightarrow> ('e, 'r) promise \<times> prim list \<times> 'e event list" where
  "doRetry ex opts list =
     (case o_retry opts of
        None \<Rightarrow> (Unspecified, list, [])
      | Some policy \<Rightarrow>
          (case Qretry (doRequest ex opts) 0 policy of
             None \<Rightarrow> (Unspecified, list, [])
           | Some (Inr res, n) \<Rightarrow>
               (Resolved res, list, replicate n (Request (o_request opts)))
           | Some (Inl err, n) \<Rightarrow>
               (let evs = replicate n (Request (o_request opts))
                            @ [Publish ''retriesFailed'' messages_retryFailed]
                in if o_reAttempt opts \<noteq> None
                   then (case doReAttempt ex opts (blockedGroups_add list (o_group opts)) n of
                           (p, list', evs') \<Rightarrow>
                             (p, list',
                              evs @ [Notify [(''message'', Text messages_retryFailed),
                                             (''error'', Cause err)],
                                     Block (o_group opts)] @ evs'))
                   else (Rejected [(''message'', Text messages_retryFailed),
                                   (''error'', Cause err)],
                         list, evs))))"

definition run ::
  "(string \<Rightarrow> prim) \<Rightarrow> ('e, 'r) executor \<Rightarrow> options \<Rightarrow> prim list \<Rightarrow> ('e, 'r) outcome" where
  "run str_num ex opts list =
     (case configure str_num opts of
        Raise e opts' \<Rightarrow> \<lparr>returned = Throws e, config = opts', registry = list, effects = []\<rparr>
      | Done opts' \<Rightarrow>
          if blockedGroups_contains list (o_group opts')
          then \<lparr>returned = Returns (Rejected [(''message'', Text messages_requestsBlocked)]),
                config = opts', registry = list, effects = []\<rparr>
          else (case doRetry ex opts' list of
                  (p, list', evs) \<Rightarrow>
                    \<lparr>returned = Returns p, config = opts', registry = list', effects = evs\<rparr>))"

subsection \<open>Strategies\<close>

text \<open>
  \<^verbatim>\<open>_strategyHelper\<close> calls the member named by the key, \<^verbatim>\<open>this[optionName](options)\<close>,
  when the value is truthy. The four setters are modelled; a key that names anything
  else, or an object handed to \<^verbatim>\<open>group\<close>, leaves the model.
\<close>

definition call_member :: "string \<Rightarrow> jsval \<Rightarrow> options \<Rightarrow> options step" where
  "call_member optionName arg opts =
     (if optionName = ''retry'' then retry arg opts
      else if optionName = ''reAttempt'' then reAttempt arg opts
      else if optionName = ''request'' then Done (request arg opts)
      else if optionName = ''group''
        then (case arg of Prim name \<Rightarrow> Done (group name opts) | Obj ps \<Rightarrow> Raise OutsideModel opts)
      else Raise OutsideModel opts)"

definition strategyHelper :: "string \<Rightarrow> jsval \<Rightarrow> options \<Rightarrow> options step" where
  "strategyHelper optionName options opts =
     (if truthy options then call_member optionName options opts else Done opts)"

definition addStrategy ::
  "(string \<times> strategy) list \<Rightarrow> string \<Rightarrow> strategy \<Rightarrow> (string \<times> strategy) list" where
  "addStrategy list strategyName strategyOptions =
     snd (strategies_add list strategyName strategyOptions)"

text \<open>
  \<^verbatim>\<open>Object.keys(strategy)\<close>, each key with \<^verbatim>\<open>strategy[key]\<close>: the entries of a stored
  strategy; an inherited member (a built-in function, or \<^verbatim>\<open>Object.prototype\<close> under
  \<^verbatim>\<open>__proto__\<close>) has no enumerable property of its own.
\<close>

fun entries :: "found \<Rightarrow> strategy" where
  "entries (Stored strategy) = strategy"
| "entries other = []"

text \<open>The loop \<^verbatim>\<open>Object.keys(strategy).map(...)\<close> of \<^verbatim>\<open>runStrategy\<close>.\<close>

fun apply_strategy :: "strategy \<Rightarrow> options \<Rightarrow> options step" where
  "apply_strategy [] opts = Done opts"
| "apply_strategy ((key, v) # rest) opts =
     (case strategyHelper key v opts of
        Raise e opts' \<Rightarrow> Raise e opts'
      | Done opts' \<Rightarrow> apply_strategy rest opts')"

definition runStrategy ::
  "(string \<Rightarrow> prim) \<Rightarrow> ('e, 'r) executor \<Rightarrow> (string \<times> strategy) list \<Rightarrow> string
     \<Rightarrow> options \<Rightarrow> prim list \<Rightarrow> ('e, 'r) outcome" where
  "runStrategy str_num ex strategies strategyName opts list =
     (case strategies_get strategies strategyName of
        Absent \<Rightarrow> \<lparr>returned = ReturnsFalse, config = opts, registry = list,
                   effects = [ConsoleError strategyName]\<rparr>
      | strategy \<Rightarrow>
          (case apply_strategy (entries strategy) opts of
             Raise e opts' \<Rightarrow> \<lparr>returned = Throws e, config = opts', registry = list, effects = []\<rparr>
           | Done opts' \<Rightarrow> run str_num ex opts' list))"

section \<open>Measures and sample inputs\<close>

text \<open>The number of executor calls in a record of effects.\<close>

fun calls :: "'e event list \<Rightarrow> nat" where
  "calls [] = 0"
| "calls (Request req # evs) = Suc (calls evs)"
| "calls (ev # evs) = calls evs"


text \<open>
  Sample inputs: the failing request of the demo application (\<^verbatim>\<open>src/unnamed/part_000\<close>),
  an executor that always fails, one that answers from its call number \<open>n\<close> on, and
  a string conversion that knows no numeral.
\<close>

definition bad_request :: jsval where
  "bad_request = Obj [(''method'', JStr ''GET''), (''url'', JStr ''http://localhost:8080/bad-url'')]"

definition always_failing :: "(string, string) executor" where
  "always_failing req i = Inl ''down''"


definition no_numeral :: "string \<Rightarrow> prim" where
  "no_numeral s = JNaN"

text \<open>
  The configuration of the demo application:
  \<^verbatim>\<open>$httpRetry.request(badRequestConfig).retry().reAttempt()\<close>.
\<close>

definition demo_options :: options where
  "demo_options =
     (case retry (Prim Undefined) (request bad_request empty_options) of
        Raise e opts1 \<Rightarrow> opts1
      | Done opts1 \<Rightarrow>
          (case reAttempt (Prim Undefined) opts1 of
             Raise e opts2 \<Rightarrow> opts2
           | Done opts2 \<Rightarrow> opts2))"

section \<open>What applying a strategy amounts to\<close>

text \<open>
  The specification has \<^verbatim>\<open>runStrategy\<close> apply each key of a strategy as the
  configuration setter of that name. The following definitions say it without the
  loop, entry by entry of the configuration, to be compared with \<open>apply_strategy\<close>:
  \<open>setting strategy key\<close> is \<^verbatim>\<open>strategy[key]\<close>, and an entry of the configuration takes
  the value its setter stores when the strategy has a truthy value under the
  setter's name, and keeps its value otherwise. \<open>setters_only\<close> holds of a strategy
  whose keys are distinct names of setters, with a primitive for the group.
\<close>

definition setter_names :: "string list" where
  "setter_names = [''retry'', ''reAttempt'', ''request'', ''group'']"

fun setters_only :: "strategy \<Rightarrow> bool" where
  "setters_only [] = True"
| "setters_only ((key, v) # rest) =
     (key \<in> set setter_names \<and> key \<notin> set (map fst rest)
      \<and> (key = ''group'' \<longrightarrow> (case v of Prim name \<Rightarrow> True | Obj ps \<Rightarrow> False))
      \<and> setters_only rest)"

definition setting :: "strategy \<Rightarrow> string \<Rightarrow> jsval" where
  "setting strategy key = (case map_of strategy key of None \<Rightarrow> Prim Undefined | Some v \<Rightarrow> v)"

definition strategy_settings :: "strategy \<Rightarrow> options \<Rightarrow> options" where
  "strategy_settings strategy opts =
     \<lparr>o_request = (if truthy (setting strategy ''request'')
                   then setting strategy ''request'' else o_request opts),
      o_retry = (if truthy (setting strategy ''retry'')
                 then Some (projr (options_parse (setting strategy ''retry'') defaults_retry))
                 else o_retry opts),
      o_reAttempt = (if truthy (setting strategy ''reAttempt'')
                     then Some (projr (options_parse (setting strategy ''reAttempt'')
                                         defaults_reAttempt))
                     else o_reAttempt opts),
      o_group = (case setting strategy ''group'' of
                   Prim name \<Rightarrow> if truthy_prim name then name else o_group opts
                 | Obj ps \<Rightarrow> o_group opts)\<rparr>"

section \<open>Auxiliary facts\<close>

subsection \<open>Objects and the registry\<close>



lemma lookup_map_keys:
  "k \<in> set ks \<Longrightarrow> lookup (map (\<lambda>key. (key, f key)) ks) k = f k"
  by (induction ks) auto

lemma map_of_assign: "map_of (assign ps k v) = (map_of ps)(k \<mapsto> v)"
  by (induction ps) auto

lemma indexOf_from_absent: "\<forall>y\<in>set xs. \<not> strict_eq y x \<Longrightarrow> indexOf_from xs x i = - 1"
  by (induction xs arbitrary: i) auto

lemma indexOf_from_present:
  "\<exists>y\<in>set xs. strict_eq y x \<Longrightarrow> 0 \<le> i \<Longrightarrow> i \<le> indexOf_from xs x i"
proof (induction xs arbitrary: i)
  case Nil
  then show ?case by simp
next
  case (Cons y ys)
  show ?case
  proof (cases "strict_eq y x")
    case True
    then show ?thesis by simp
  next
    case False
    with Cons.prems have "\<exists>y\<in>set ys. strict_eq y x" by simp
    from Cons.IH[OF this, of "i + 1"] Cons.prems False show ?thesis by simp
  qed
qed


lemma contains_iff: "blockedGroups_contains list g = (\<exists>y\<in>set list. strict_eq y g)"
proof (cases "\<exists>y\<in>set list. strict_eq y g")
  case True
  from indexOf_from_present[OF this, of 0] True show ?thesis
    by (simp add: blockedGroups_contains_def indexOf_def)
next
  case False
  then have "indexOf_from list g 0 = - 1" by (simp add: indexOf_from_absent)
  with False show ?thesis by (simp add: blockedGroups_contains_def indexOf_def)
qed



subsection \<open>The policy resolver and the configuration\<close>

lemma parse_total: "\<exists>p. options_parse v d = Inr p"
  by (cases v) (auto simp: options_parse_def options_override_def nullish_def)

lemma retry_undefined: "retry (Prim Undefined) opts = Done (opts\<lparr>o_retry := Some defaults_retry\<rparr>)"
  by (simp add: retry_def options_parse_def)

lemma retry_Done:
  "retry v opts = Done (opts\<lparr>o_retry := Some (projr (options_parse v defaults_retry))\<rparr>)"
  using parse_total[of v defaults_retry] by (auto simp: retry_def)

lemma reAttempt_Done:
  "reAttempt v opts =
     Done (opts\<lparr>o_reAttempt := Some (projr (options_parse v defaults_reAttempt))\<rparr>)"
  using parse_total[of v defaults_reAttempt] by (auto simp: reAttempt_def)



lemma configure_group:
  "configure str_num opts = Done c \<Longrightarrow>
     o_group c = (if o_group opts = Undefined then read (o_request opts) ''url''
                  else o_group opts)"
  by (auto simp: configure_def retry_undefined Let_def group_def
        split: if_splits option.splits)

lemma configure_Done:
  "o_group opts \<noteq> Undefined \<or> \<not> nullish (o_request opts) \<Longrightarrow>
     \<exists>c. configure str_num opts = Done c"
  by (auto simp: configure_def retry_undefined Let_def group_def split: option.splits)



lemma default_run_config:
  "configure no_numeral (request bad_request empty_options) =
     Done \<lparr>o_request = bad_request,
           o_retry = Some (defaults_retry @ [(''maxRetry'', JNum 2)]),
           o_reAttempt = None,
           o_group = JStr ''http://localhost:8080/bad-url''\<rparr>"
  by (simp add: configure_def request_def empty_options_def retry_undefined nullish_def
        bad_request_def group_def defaults_retry_def)


subsection \<open>The retry primitive\<close>




subsection \<open>The two phases of a run\<close>









subsection \<open>Applying a strategy\<close>

lemma setting_absent: "key \<notin> fst ` set strategy \<Longrightarrow> setting strategy key = Prim Undefined"
proof -
  assume "key \<notin> fst ` set strategy"
  then have "map_of strategy key = None" by (simp add: map_of_eq_None_iff)
  then show ?thesis by (simp add: setting_def)
qed

lemma setting_other: "n \<noteq> key \<Longrightarrow> setting ((key, v) # rest) n = setting rest n"
  by (simp add: setting_def)

lemma setting_head: "setting ((key, v) # rest) key = v"
  by (simp add: setting_def)

lemma strategy_settings_Nil: "strategy_settings [] opts = opts"
  by (simp add: strategy_settings_def setting_def)

lemma strategy_settings_falsy:
  assumes "\<not> truthy v" and "key \<notin> fst ` set rest"
  shows "strategy_settings ((key, v) # rest) opts = strategy_settings rest opts"
proof -
  have a: "setting rest key = Prim Undefined" by (rule setting_absent[OF assms(2)])
  have t: "truthy (setting ((key, v) # rest) n) = truthy (setting rest n)" for n
    using assms(1) a by (cases "n = key") (simp_all add: setting_other setting_head)
  have e: "truthy (setting rest n) \<Longrightarrow> setting ((key, v) # rest) n = setting rest n" for n
    using a by (cases "n = key") (simp_all add: setting_other)
  have g: "(case setting ((key, v) # rest) ''group'' of
              Prim name \<Rightarrow> if truthy_prim name then name else o_group opts
            | Obj ps \<Rightarrow> o_group opts) =
           (case setting rest ''group'' of
              Prim name \<Rightarrow> if truthy_prim name then name else o_group opts
            | Obj ps \<Rightarrow> o_group opts)"
  proof (cases "''group'' = key")
    case True
    with assms(1) a show ?thesis by (cases v) (simp_all add: setting_head)
  next
    case False
    then show ?thesis by (simp add: setting_other)
  qed
  show ?thesis
    unfolding strategy_settings_def by (simp only: t g) (simp add: e)
qed

lemma strategy_settings_retry:
  assumes "truthy v" and "''retry'' \<notin> fst ` set rest"
  shows "strategy_settings ((''retry'', v) # rest) opts =
         strategy_settings rest (opts\<lparr>o_retry := Some (projr (options_parse v defaults_retry))\<rparr>)"
  using assms(1) setting_absent[OF assms(2)]
  by (simp add: strategy_settings_def setting_head setting_other split: jsval.splits)

lemma strategy_settings_reAttempt:
  assumes "truthy v" and "''reAttempt'' \<notin> fst ` set rest"
  shows "strategy_settings ((''reAttempt'', v) # rest) opts =
         strategy_settings rest
           (opts\<lparr>o_reAttempt := Some (projr (options_parse v defaults_reAttempt))\<rparr>)"
  using assms(1) setting_absent[OF assms(2)]
  by (simp add: strategy_settings_def setting_head setting_other split: jsval.splits)

lemma strategy_settings_request:
  assumes "truthy v" and "''request'' \<notin> fst ` set rest"
  shows "strategy_settings ((''request'', v) # rest) opts =
         strategy_settings rest (opts\<lparr>o_request := v\<rparr>)"
  using assms(1) setting_absent[OF assms(2)]
  by (simp add: strategy_settings_def setting_head setting_other split: jsval.splits)

lemma strategy_settings_group:
  assumes "truthy (Prim name)" and "''group'' \<notin> fst ` set rest"
  shows "strategy_settings ((''group'', Prim name) # rest) opts =
         strategy_settings rest (opts\<lparr>o_group := name\<rparr>)"
  using assms(1) setting_absent[OF assms(2)]
  by (simp add: strategy_settings_def setting_head setting_other split: jsval.splits)

lemma apply_strategy_settings:
  "setters_only strategy \<Longrightarrow> apply_strategy strategy opts = Done (strategy_settings strategy opts)"
proof (induction strategy arbitrary: opts)
  case Nil
  then show ?case by (simp add: strategy_settings_Nil)
next
  case (Cons entry rest)
  obtain key v where entry: "entry = (key, v)" by (cases entry)
  from Cons.prems entry have names: "key \<in> set setter_names"
    and fresh: "key \<notin> fst ` set rest"
    and grp: "key = ''group'' \<longrightarrow> (\<exists>name. v = Prim name)"
    and rest: "setters_only rest"
    by (auto split: jsval.splits)
  note IH = Cons.IH[OF rest]
  show ?case
  proof (cases "truthy v")
    case False
    then have "strategyHelper key v opts = Done opts" by (simp add: strategyHelper_def)
    with IH[of opts] entry strategy_settings_falsy[OF False fresh, of opts]
    show ?thesis by simp
  next
    case True
    from names consider "key = ''retry''" | "key = ''reAttempt''" | "key = ''request''"
      | "key = ''group''"
      by (auto simp: setter_names_def)
    then show ?thesis
    proof cases
      case 1
      with True have h: "strategyHelper key v opts =
          Done (opts\<lparr>o_retry := Some (projr (options_parse v defaults_retry))\<rparr>)"
        by (simp add: strategyHelper_def call_member_def retry_Done)
      from 1 fresh have "''retry'' \<notin> fst ` set rest" by simp
      from strategy_settings_retry[OF True this, of opts] h IH entry 1
      show ?thesis by simp
    next
      case 2
      with True have h: "strategyHelper key v opts =
          Done (opts\<lparr>o_reAttempt := Some (projr (options_parse v defaults_reAttempt))\<rparr>)"
        by (simp add: strategyHelper_def call_member_def reAttempt_Done)
      from 2 fresh have "''reAttempt'' \<notin> fst ` set rest" by simp
      from strategy_settings_reAttempt[OF True this, of opts] h IH entry 2
      show ?thesis by simp
    next
      case 3
      with True have h: "strategyHelper key v opts = Done (opts\<lparr>o_request := v\<rparr>)"
        by (simp add: strategyHelper_def call_member_def request_def)
      from 3 fresh have "''request'' \<notin> fst ` set rest" by simp
      from strategy_settings_request[OF True this, of opts] h IH entry 3
      show ?thesis by simp
    next
      case 4
      with grp obtain name where v: "v = Prim name" by auto
      with 4 True have h: "strategyHelper key v opts = Done (opts\<lparr>o_group := name\<rparr>)"
        by (simp add: strategyHelper_def call_member_def group_def)
      from 4 fresh have f: "''group'' \<notin> fst ` set rest" by simp
      from True v have t: "truthy (Prim name)" by simp
      from strategy_settings_group[OF t f, of opts] h IH entry 4 v
      show ?thesis by simp
    qed
  qed
qed

lemma apply_strategy_skip:
  "\<not> truthy v \<Longrightarrow>
     apply_strategy (before @ (key, v) # after) opts = apply_strategy (before @ after) opts"
proof (induction before arbitrary: opts)
  case Nil
  then show ?case by (simp add: strategyHelper_def)
next
  case (Cons entry before)
  obtain k w where entry: "entry = (k, w)" by (cases entry)
  show ?case
  proof (cases "strategyHelper k w opts")
    case (Done opts')
    with Cons.IH[OF Cons.prems, of opts'] entry show ?thesis by simp
  next
    case (Raise e opts')
    with entry show ?thesis by simp
  qed
qed

section \<open>The properties\<close>

subsection \<open>A blocked group rejects at once\<close>

text \<open>
  C1. While a group \<open>G\<close> is in the blocked-group registry, a \<^verbatim>\<open>run()\<close> configured with
  group \<open>G\<close> returns a promise rejected with
  \<^verbatim>\<open>{message: "Requests are currently blocked by Retry library."}\<close>; it calls the
  executor not once (it has no effect at all) and leaves the registry as it was.
  The configured group is the group of the configuration \<open>c\<close> that \<^verbatim>\<open>_configure\<close>
  leaves: the group that was set, or \<^verbatim>\<open>request.url\<close> when none was set. The second
  part says the same from the configuration \<^verbatim>\<open>run()\<close> is called on.
\<close>

theorem run_blocked_group:
  "(\<forall>c. configure str_num opts = Done c \<and> blockedGroups_contains list (o_group c) \<longrightarrow>
       run str_num ex opts list =
         \<lparr>returned = Returns (Rejected [(''message'',
                 Text ''Requests are currently blocked by Retry library.'')]),
          config = c, registry = list, effects = []\<rparr>
       \<and> calls (effects (run str_num ex opts list)) = 0)
   \<and> ((o_group opts \<noteq> Undefined \<or> \<not> nullish (o_request opts))
        \<and> blockedGroups_contains list
              (if o_group opts = Undefined then read (o_request opts) ''url''
               else o_group opts) \<longrightarrow>
       returned (run str_num ex opts list) =
         Returns (Rejected [(''message'',
                             Text ''Requests are currently blocked by Retry library.'')])
       \<and> effects (run str_num ex opts list) = []
       \<and> calls (effects (run str_num ex opts list)) = 0
       \<and> registry (run str_num ex opts list) = list)"
proof -
  have general: "run str_num ex opts list =
         \<lparr>returned = Returns (Rejected [(''message'',
                 Text ''Requests are currently blocked by Retry library.'')]),
          config = c, registry = list, effects = []\<rparr>"
    if "configure str_num opts = Done c" and "blockedGroups_contains list (o_group c)" for c
    using that by (simp add: run_def messages_requestsBlocked_def)
  have derived: "returned (run str_num ex opts list) =
         Returns (Rejected [(''message'',
                             Text ''Requests are currently blocked by Retry library.'')])
       \<and> effects (run str_num ex opts list) = []
       \<and> calls (effects (run str_num ex opts list)) = 0
       \<and> registry (run str_num ex opts list) = list"
    if ok: "o_group opts \<noteq> Undefined \<or> \<not> nullish (o_request opts)"
      and blocked: "blockedGroups_contains list
              (if o_group opts = Undefined then read (o_request opts) ''url''
               else o_group opts)"
  proof -
    from configure_Done[OF ok] obtain c where c: "configure str_num opts = Done c" by blast
    from blocked configure_group[OF c] have "blockedGroups_contains list (o_group c)" by simp
    from general[OF c this] show ?thesis by simp
  qed
  from general derived show ?thesis by simp
qed

theorem run_blocked_group_witness:
  "returned (run no_numeral always_failing
               (group (JStr ''g'') (request bad_request empty_options)) [JStr ''g'']) =
      Returns (Rejected [(''message'',
                          Text ''Requests are currently blocked by Retry library.'')])
   \<and> effects (run no_numeral always_failing
                 (group (JStr ''g'') (request bad_request empty_options)) [JStr ''g'']) = []
   \<and> returned (run no_numeral always_failing (request bad_request empty_options)
                  [JStr ''http://localhost:8080/bad-url'']) =
      Returns (Rejected [(''message'',
                          Text ''Requests are currently blocked by Retry library.'')])
   \<and> effects (run no_numeral always_failing (request bad_request empty_options)
                 [JStr ''http://localhost:8080/bad-url'']) = []
   \<and> run no_numeral always_failing (request bad_request empty_options)
         [JStr ''http://localhost:8080/bad-url''] =
       \<lparr>returned = Returns (Rejected [(''message'',
               Text ''Requests are currently blocked by Retry library.'')]),
        config = \<lparr>o_request = bad_request,
                  o_retry = Some (defaults_retry @ [(''maxRetry'', JNum 2)]),
                  o_reAttempt = None,
                  o_group = JStr ''http://localhost:8080/bad-url''\<rparr>,
        registry = [JStr ''http://localhost:8080/bad-url''], effects = []\<rparr>"
proof -
  let ?set = "group (JStr ''g'') (request bad_request empty_options)"
  let ?unset = "request bad_request empty_options"
  let ?url = "JStr ''http://localhost:8080/bad-url''"
  let ?c = "\<lparr>o_request = bad_request,
             o_retry = Some (defaults_retry @ [(''maxRetry'', JNum 2)]),
             o_reAttempt = None, o_group = ?url\<rparr>"
  have a: "(o_group ?set \<noteq> Undefined \<or> \<not> nullish (o_request ?set))
        \<and> blockedGroups_contains [JStr ''g'']
              (if o_group ?set = Undefined then read (o_request ?set) ''url''
               else o_group ?set)"
    by (simp add: group_def contains_iff strict_eq_def)
  have b: "(o_group ?unset \<noteq> Undefined \<or> \<not> nullish (o_request ?unset))
        \<and> blockedGroups_contains [?url]
              (if o_group ?unset = Undefined then read (o_request ?unset) ''url''
               else o_group ?unset)"
    by (simp add: request_def empty_options_def bad_request_def nullish_def
          contains_iff strict_eq_def)
  have c: "configure no_numeral ?unset = Done ?c \<and> blockedGroups_contains [?url] (o_group ?c)"
    by (simp add: default_run_config contains_iff strict_eq_def)
  from run_blocked_group[of no_numeral ?set "[JStr ''g'']" always_failing] a
  have 1: "returned (run no_numeral always_failing ?set [JStr ''g'']) =
      Returns (Rejected [(''message'',
                          Text ''Requests are currently blocked by Retry library.'')])
   \<and> effects (run no_numeral always_failing ?set [JStr ''g'']) = []"
    by blast
  from run_blocked_group[of no_numeral ?unset "[?url]" always_failing] b
  have 2: "returned (run no_numeral always_failing ?unset [?url]) =
      Returns (Rejected [(''message'',
                          Text ''Requests are currently blocked by Retry library.'')])
   \<and> effects (run no_numeral always_failing ?unset [?url]) = []"
    by blast
  from run_blocked_group[of no_numeral ?unset "[?url]" always_failing] c
  have 3: "run no_numeral always_failing ?unset [?url] =
       \<lparr>returned = Returns (Rejected [(''message'',
               Text ''Requests are currently blocked by Retry library.'')]),
        config = ?c, registry = [?url], effects = []\<rparr>"
    by blast
  from 1 2 3 show ?thesis by blast
qed

subsection \<open>The re-attempt phase\<close>




subsection \<open>Retries exhausted, no re-attempt policy\<close>




subsection \<open>Success within the retry phase\<close>



subsection \<open>The policy resolver\<close>

text \<open>
  C5. \<^verbatim>\<open>options.parse(given, defaults)\<close> never throws. It returns the defaults
  themselves when \<open>given\<close> is falsy (absent) or has no keys. Otherwise the result has
  exactly the keys of the defaults, and under each of them \<open>given[key]\<close> if that is
  truthy and \<open>defaults[key]\<close> if not. So a falsy value that was meant, such as
  \<^verbatim>\<open>interval: 0\<close>, is replaced by the default.
\<close>

theorem options_parse_resolves:
  "(\<not> truthy given \<or> keys given = [] \<longrightarrow> options_parse given defaults = Inr defaults)
   \<and> (truthy given \<and> keys given \<noteq> [] \<longrightarrow>
        (\<exists>res. options_parse given defaults = Inr res
           \<and> map fst res = map fst defaults
           \<and> (\<forall>key\<in>set (map fst defaults).
                 lookup res key = (if truthy_prim (read given key) then read given key
                                   else lookup defaults key))))
   \<and> options_parse (Obj [(''max'', JNum 4), (''interval'', JNum 0)]) defaults_retry =
        Inr [(''max'', JNum 4), (''interval'', JNum 100), (''intervalMultiplicator'', JNum 1)]"
proof -
  have a: "\<not> truthy given \<or> keys given = [] \<longrightarrow> options_parse given defaults = Inr defaults"
    by (simp add: options_parse_def)
  have nn: "\<not> nullish given" if "truthy given"
    using that by (auto simp: nullish_def)
  let ?f = "\<lambda>key. if truthy_prim (read given key) then read given key
                  else lookup defaults key"
  let ?res = "map (\<lambda>key. (key, ?f key)) (map fst defaults)"
  have p: "options_parse given defaults = Inr ?res" if "truthy given" and "keys given \<noteq> []"
    using that nn by (simp add: options_parse_def options_override_def)
  have k: "map fst ?res = map fst defaults"
    by (simp add: comp_def)
  have l: "\<forall>key\<in>set (map fst defaults). lookup ?res key = ?f key"
    using lookup_map_keys[of _ "map fst defaults" ?f] by blast
  have b: "truthy given \<and> keys given \<noteq> [] \<longrightarrow>
        (\<exists>res. options_parse given defaults = Inr res
           \<and> map fst res = map fst defaults
           \<and> (\<forall>key\<in>set (map fst defaults).
                 lookup res key = (if truthy_prim (read given key) then read given key
                                   else lookup defaults key)))"
    using p k l by blast
  have c: "options_parse (Obj [(''max'', JNum 4), (''interval'', JNum 0)]) defaults_retry =
        Inr [(''max'', JNum 4), (''interval'', JNum 100), (''intervalMultiplicator'', JNum 1)]"
    by (simp add: options_parse_def options_override_def nullish_def defaults_retry_def)
  from a b c show ?thesis by blast
qed

theorem options_parse_resolves_witness:
  "options_parse (Prim Null) defaults_reAttempt = Inr defaults_reAttempt
   \<and> options_parse (Obj []) defaults_reAttempt = Inr defaults_reAttempt
   \<and> (\<exists>res. options_parse (Obj [(''max'', JNum 7)]) defaults_reAttempt = Inr res
          \<and> lookup res ''max'' = JNum 7 \<and> lookup res ''interval'' = JNum 1000)"
proof -
  have a: "\<not> truthy (Prim Null) \<or> keys (Prim Null) = []" by simp
  have b: "\<not> truthy (Obj []) \<or> keys (Obj []) = []" by simp
  have c: "truthy (Obj [(''max'', JNum 7)]) \<and> keys (Obj [(''max'', JNum 7)]) \<noteq> []" by simp
  have d: "''max'' \<in> set (map fst defaults_reAttempt)"
          "''interval'' \<in> set (map fst defaults_reAttempt)"
    by (simp_all add: defaults_reAttempt_def)
  from options_parse_resolves[of "Prim Null" defaults_reAttempt] a
  have 1: "options_parse (Prim Null) defaults_reAttempt = Inr defaults_reAttempt" by blast
  from options_parse_resolves[of "Obj []" defaults_reAttempt] b
  have 2: "options_parse (Obj []) defaults_reAttempt = Inr defaults_reAttempt" by blast
  from options_parse_resolves[of "Obj [(''max'', JNum 7)]" defaults_reAttempt] c
  obtain res where r: "options_parse (Obj [(''max'', JNum 7)]) defaults_reAttempt = Inr res"
    and l: "\<forall>key\<in>set (map fst defaults_reAttempt).
              lookup res key = (if truthy_prim (read (Obj [(''max'', JNum 7)]) key)
                                then read (Obj [(''max'', JNum 7)]) key
                                else lookup defaults_reAttempt key)"
    by blast
  from l d have "lookup res ''max'' = JNum 7 \<and> lookup res ''interval'' = JNum 1000"
    by (simp add: defaults_reAttempt_def)
  with 1 2 r show ?thesis by blast
qed

subsection \<open>The rejection after the re-attempt phase\<close>

text \<open>
  C6, at the demo configuration with an executor that always fails: the re-attempt
  phase is exhausted and the promise is rejected with
  \<^verbatim>\<open>{message: "Re-attempts of request failed.", err: <cause>}\<close>. The cause is under
  the key \<^verbatim>\<open>err\<close>; the key \<^verbatim>\<open>error\<close>, which the rejection of the retry phase and the
  progress notification use, is not there.
\<close>

theorem reAttempts_failed_payload:
  "returned (run no_numeral always_failing demo_options []) =
     Returns (Rejected [(''message'', Text ''Re-attempts of request failed.''),
                        (''err'', Cause ''down'')])
   \<and> returned (run no_numeral always_failing demo_options []) \<noteq>
     Returns (Rejected [(''message'', Text ''Re-attempts of request failed.''),
                        (''error'', Cause ''down'')])
   \<and> last (effects (run no_numeral always_failing demo_options [])) =
     Publish ''reAttemptsFailed'' ''Re-attempts of request failed.''
   \<and> registry (run no_numeral always_failing demo_options []) = []"
  by code_simp

subsection \<open>Registering a strategy\<close>

text \<open>
  C7, as the code has it, for a name under which no object inherits a member.
  \<^verbatim>\<open>strategies.add(name, bundle)\<close> on a registered name returns \<^verbatim>\<open>false\<close> and changes
  nothing, so the registered bundle stays. On a name that is not registered it
  stores the bundle under that name, leaves every other name alone, and returns
  \<^verbatim>\<open>undefined\<close> (the function ends without a \<^verbatim>\<open>return\<close>), not \<^verbatim>\<open>true\<close>; a second
  add under the name then returns \<^verbatim>\<open>false\<close> and the first bundle stays.
\<close>

theorem strategies_add_once:
  assumes "name \<notin> set object_prototype_names"
  shows "(\<forall>registered. strategies_get list name = Stored registered \<longrightarrow>
            strategies_add list name bundle = (JBool False, list))
   \<and> ((\<forall>registered. strategies_get list name \<noteq> Stored registered) \<longrightarrow>
        fst (strategies_add list name bundle) = Undefined
        \<and> strategies_get (snd (strategies_add list name bundle)) name = Stored bundle
        \<and> (\<forall>other. other \<noteq> name \<longrightarrow>
              strategies_get (snd (strategies_add list name bundle)) other =
                strategies_get list other)
        \<and> strategies_add (snd (strategies_add list name bundle)) name bundle' =
             (JBool False, snd (strategies_add list name bundle)))"
proof (cases "map_of list name")
  case None
  with assms show ?thesis
    by (simp add: strategies_add_def strategies_get_def map_of_assign)
next
  case (Some s)
  with assms show ?thesis
    by (simp add: strategies_add_def strategies_get_def)
qed

theorem strategies_add_once_witness:
  "strategies_add builtin_strategies ''resilient'' [] = (JBool False, builtin_strategies)
   \<and> strategies_get (snd (strategies_add builtin_strategies ''custom''
                              [(''group'', Prim (JStr ''a''))])) ''custom'' =
        Stored [(''group'', Prim (JStr ''a''))]
   \<and> strategies_get
        (snd (strategies_add
               (snd (strategies_add builtin_strategies ''custom''
                       [(''group'', Prim (JStr ''a''))]))
               ''custom'' [(''group'', Prim (JStr ''b''))])) ''custom'' =
        Stored [(''group'', Prim (JStr ''a''))]"
proof -
  have n1: "''resilient'' \<notin> set object_prototype_names"
    by (simp add: object_prototype_names_def)
  have n2: "''custom'' \<notin> set object_prototype_names"
    by (simp add: object_prototype_names_def)
  have a: "strategies_get builtin_strategies ''resilient'' =
           Stored [(''retry'', Obj [(''max'', JNum 5), (''interval'', JNum 100),
                                    (''intervalMultiplicator'', JNum 1)]),
                   (''reAttempt'', Obj [(''max'', JNum 10), (''interval'', JNum 1000),
                                        (''intervalMultiplicator'', JNum 1)])]"
    by (simp add: strategies_get_def builtin_strategies_def)
  have b: "\<forall>registered. strategies_get builtin_strategies ''custom'' \<noteq> Stored registered"
    by (simp add: strategies_get_def builtin_strategies_def object_prototype_names_def)
  from strategies_add_once[OF n1, of builtin_strategies "[]"] a
  have 1: "strategies_add builtin_strategies ''resilient'' [] = (JBool False, builtin_strategies)"
    by blast
  from strategies_add_once[OF n2, of builtin_strategies "[(''group'', Prim (JStr ''a''))]"
      "[(''group'', Prim (JStr ''b''))]"] b
  show ?thesis using 1 by simp
qed

theorem strategies_add_counterexample:
  "map_of builtin_strategies ''custom'' = None
   \<and> fst (strategies_add builtin_strategies ''custom'' [(''group'', Prim (JStr ''a''))])
       \<noteq> JBool True
   \<and> map_of builtin_strategies ''constructor'' = None
   \<and> strategies_add builtin_strategies ''constructor'' [(''group'', Prim (JStr ''a''))] =
       (JBool False, builtin_strategies)"
  by (simp add: strategies_add_def strategies_get_def builtin_strategies_def
        object_prototype_names_def)

subsection \<open>Running a strategy\<close>

text \<open>
  C8, as the code has it, for a name under which no object inherits a member.
  \<^verbatim>\<open>runStrategy(name)\<close> with a name that is not registered writes to the console
  and returns \<^verbatim>\<open>false\<close> at once: no promise, and configuration and registry stay as
  they were. With a registered strategy whose keys name setters, it leaves every
  entry of the configuration as the setter of its name stores it, for the keys that
  carry a truthy value only (a key with a falsy value is skipped, where calling the
  setter would reset the entry), and then is \<^verbatim>\<open>run()\<close> on that configuration, whose
  outcome it returns.
\<close>

theorem runStrategy_applies_setters:
  assumes "name \<notin> set object_prototype_names"
  shows "((\<forall>strategy. strategies_get strategies name \<noteq> Stored strategy) \<longrightarrow>
      runStrategy str_num ex strategies name opts list =
        \<lparr>returned = ReturnsFalse, config = opts, registry = list,
         effects = [ConsoleError name]\<rparr>)
   \<and> (\<forall>strategy. strategies_get strategies name = Stored strategy \<and> setters_only strategy \<longrightarrow>
        apply_strategy strategy opts = Done (strategy_settings strategy opts)
        \<and> runStrategy str_num ex strategies name opts list =
            run str_num ex (strategy_settings strategy opts) list)"
proof (cases "map_of strategies name")
  case None
  with assms show ?thesis
    by (simp add: runStrategy_def strategies_get_def)
next
  case (Some s)
  with assms show ?thesis
    by (simp add: runStrategy_def strategies_get_def apply_strategy_settings)
qed

theorem runStrategy_applies_setters_witness:
  "runStrategy no_numeral always_failing builtin_strategies ''patient''
      (request bad_request empty_options) [] =
     \<lparr>returned = ReturnsFalse, config = request bad_request empty_options, registry = [],
      effects = [ConsoleError ''patient'']\<rparr>
   \<and> runStrategy no_numeral always_failing builtin_strategies ''resilient''
        (request bad_request empty_options) [] =
       run no_numeral always_failing
         \<lparr>o_request = bad_request,
          o_retry = Some [(''max'', JNum 5), (''interval'', JNum 100),
                          (''intervalMultiplicator'', JNum 1)],
          o_reAttempt = Some [(''max'', JNum 10), (''interval'', JNum 1000),
                              (''intervalMultiplicator'', JNum 1)],
          o_group = Undefined\<rparr> []"
proof -
  let ?resilient = "[(''retry'', Obj [(''max'', JNum 5), (''interval'', JNum 100),
                                      (''intervalMultiplicator'', JNum 1)]),
                     (''reAttempt'', Obj [(''max'', JNum 10), (''interval'', JNum 1000),
                                          (''intervalMultiplicator'', JNum 1)])]"
  have n1: "''patient'' \<notin> set object_prototype_names"
    by (simp add: object_prototype_names_def)
  have n2: "''resilient'' \<notin> set object_prototype_names"
    by (simp add: object_prototype_names_def)
  have a: "\<forall>strategy. strategies_get builtin_strategies ''patient'' \<noteq> Stored strategy"
    by (simp add: strategies_get_def builtin_strategies_def object_prototype_names_def)
  have b: "strategies_get builtin_strategies ''resilient'' = Stored ?resilient"
    by (simp add: strategies_get_def builtin_strategies_def)
  have c: "setters_only ?resilient"
    by (simp add: setter_names_def)
  have d: "strategy_settings ?resilient (request bad_request empty_options) =
         \<lparr>o_request = bad_request,
          o_retry = Some [(''max'', JNum 5), (''interval'', JNum 100),
                          (''intervalMultiplicator'', JNum 1)],
          o_reAttempt = Some [(''max'', JNum 10), (''interval'', JNum 1000),
                              (''intervalMultiplicator'', JNum 1)],
          o_group = Undefined\<rparr>"
    by (simp add: strategy_settings_def setting_def request_def empty_options_def
          options_parse_def options_override_def nullish_def defaults_retry_def
          defaults_reAttempt_def)
  from runStrategy_applies_setters[OF n1, of builtin_strategies no_numeral
      always_failing "request bad_request empty_options" "[]"] a
  have 1: "runStrategy no_numeral always_failing builtin_strategies ''patient''
      (request bad_request empty_options) [] =
     \<lparr>returned = ReturnsFalse, config = request bad_request empty_options, registry = [],
      effects = [ConsoleError ''patient'']\<rparr>"
    by blast
  from runStrategy_applies_setters[OF n2, of builtin_strategies no_numeral
      always_failing "request bad_request empty_options" "[]"] b c
  have "runStrategy no_numeral always_failing builtin_strategies ''resilient''
        (request bad_request empty_options) [] =
       run no_numeral always_failing
         (strategy_settings ?resilient (request bad_request empty_options)) []"
    by blast
  with 1 d show ?thesis by simp
qed

theorem runStrategy_counterexample:
  "o_group (config (runStrategy no_numeral always_failing
              [(''quiet'', [(''group'', Prim (JStr ''''))])] ''quiet''
              (group (JStr ''g'') (request bad_request empty_options)) [])) = JStr ''g''
   \<and> o_group (group (JStr '''') (group (JStr ''g'') (request bad_request empty_options))) =
       JStr ''''
   \<and> map_of builtin_strategies ''constructor'' = None
   \<and> returned (runStrategy no_numeral always_failing builtin_strategies ''constructor''
                 (request bad_request empty_options) []) \<noteq> ReturnsFalse"
  by code_simp

subsection \<open>A run without request and group\<close>

text \<open>
  C9. On a configuration whose request descriptor and group were never set,
  \<^verbatim>\<open>run()\<close> throws a \<^verbatim>\<open>TypeError\<close> at once (reading \<^verbatim>\<open>url\<close> of the missing request
  when it defaults the group): it returns no promise, calls no executor and leaves
  the registry alone.
\<close>

theorem run_without_request_throws:
  assumes "o_request opts = Prim Undefined" and "o_group opts = Undefined"
  shows "returned (run str_num ex opts list) = Throws TypeError
         \<and> effects (run str_num ex opts list) = []
         \<and> registry (run str_num ex opts list) = list"
proof -
  have "\<exists>c. configure str_num opts = Raise TypeError c"
    using assms by (auto simp: configure_def retry_undefined nullish_def)
  then show ?thesis by (auto simp: run_def)
qed

theorem run_without_request_throws_witness:
  "o_request empty_options = Prim Undefined \<and> o_group empty_options = Undefined
   \<and> returned (run no_numeral always_failing empty_options []) = Throws TypeError
   \<and> effects (run no_numeral always_failing empty_options []) = []"
proof -
  have a: "o_request empty_options = Prim Undefined" by (simp add: empty_options_def)
  have b: "o_group empty_options = Undefined" by (simp add: empty_options_def)
  from run_without_request_throws[OF a b, of no_numeral always_failing "[]"] a b
  show ?thesis by simp
qed

subsection \<open>Falsy values in a strategy\<close>

text \<open>
  C10. A key of a strategy whose value is falsy (\<^verbatim>\<open>group: ""\<close>, \<^verbatim>\<open>retry: null\<close>) is
  skipped: \<^verbatim>\<open>_strategyHelper\<close> calls no setter and leaves the configuration as it
  was, so the loop over the strategy, and \<^verbatim>\<open>runStrategy\<close> with it, does exactly
  what it does for the strategy without that key.
\<close>

theorem falsy_setting_skipped:
  assumes "\<not> truthy v"
  shows "strategyHelper key v opts = Done opts
    \<and> apply_strategy (before @ (key, v) # after) opts = apply_strategy (before @ after) opts
    \<and> (strategies_get strategies name = Stored (before @ (key, v) # after)
        \<and> strategies_get strategies' name = Stored (before @ after) \<longrightarrow>
          runStrategy str_num ex strategies name opts list =
          runStrategy str_num ex strategies' name opts list)"
  using assms
  by (simp add: strategyHelper_def runStrategy_def apply_strategy_skip)

theorem falsy_setting_skipped_witness:
  "strategyHelper ''group'' (Prim (JStr '''')) (group (JStr ''g'') empty_options) =
     Done (group (JStr ''g'') empty_options)
   \<and> strategyHelper ''retry'' (Prim Null) demo_options = Done demo_options
   \<and> runStrategy no_numeral always_failing
        [(''quiet'', [(''retry'', Prim Null), (''group'', Prim (JStr ''''))])] ''quiet''
        demo_options [] =
      runStrategy no_numeral always_failing
        [(''quiet'', [(''group'', Prim (JStr ''''))])] ''quiet'' demo_options []"
proof -
  have a: "\<not> truthy (Prim (JStr ''''))" by simp
  have b: "\<not> truthy (Prim Null)" by simp
  have c: "strategies_get [(''quiet'', [(''retry'', Prim Null), (''group'', Prim (JStr ''''))])]
             ''quiet'' = Stored ([] @ (''retry'', Prim Null) # [(''group'', Prim (JStr ''''))])"
    by (simp add: strategies_get_def)
  have d: "strategies_get [(''quiet'', [(''group'', Prim (JStr ''''))])] ''quiet'' =
             Stored ([] @ [(''group'', Prim (JStr ''''))])"
    by (simp add: strategies_get_def)
  from falsy_setting_skipped[OF a, of "''group''" "group (JStr ''g'') empty_options"]
  have 1: "strategyHelper ''group'' (Prim (JStr '''')) (group (JStr ''g'') empty_options) =
     Done (group (JStr ''g'') empty_options)"
    by blast
  from falsy_setting_skipped[OF b, of "''retry''" demo_options "[]"
      "[(''group'', Prim (JStr ''''))]"
      "[(''quiet'', [(''retry'', Prim Null), (''group'', Prim (JStr ''''))])]" "''quiet''"
      "[(''quiet'', [(''group'', Prim (JStr ''''))])]" no_numeral always_failing "[]"] c d
  have 2: "strategyHelper ''retry'' (Prim Null) demo_options = Done demo_options
    \<and> runStrategy no_numeral always_failing
        [(''quiet'', [(''retry'', Prim Null), (''group'', Prim (JStr ''''))])] ''quiet''
        demo_options [] =
      runStrategy no_numeral always_failing
        [(''quiet'', [(''group'', Prim (JStr ''''))])] ''quiet'' demo_options []"
    by blast
  from 1 2 show ?thesis by blast
qed

end
